theory Spec2Isabelle
  imports Main "HOL-Library.Word" "HOL-Library.Signed_Division"
begin

unbundle bit_operations_syntax

section \<open>Block headers with merged-mining payload (wire/blockheader.go)\<close>

text \<open>
  The development embeds \<^verbatim>\<open>wire/blockheader.go\<close>: the block header, its AuxPoW
  payload, the two wire forms, the header hashes and the Merkle branch check.
  A reader is the list of bytes it still holds; a writer is the list of bytes written
  to an in-memory buffer, whose writes do not fail (as the \<^verbatim>\<open>bytes.Buffer\<close> of
  \<^verbatim>\<open>BlockHash\<close>). Go's \<^verbatim>\<open>int32\<close> and \<^verbatim>\<open>uint32\<close> are both \<open>32 word\<close>; the signed
  reading is \<open>sint\<close>.
\<close>

subsection \<open>Data\<close>

type_synonym byte = "8 word"
type_synonym int32 = "32 word"
type_synonym uint32 = "32 word"
type_synonym uint64 = "64 word"

text \<open>\<^verbatim>\<open>chainhash.HashSize\<close> and \<^verbatim>\<open>chainhash.Hash\<close>, a \<^verbatim>\<open>[32]byte\<close> array.\<close>

abbreviation HashSize :: nat where
  "HashSize \<equiv> 32"

typedef chainhash = "{bs :: byte list. length bs = HashSize}"
  by (rule exI [of _ "replicate HashSize 0"]) simp

text \<open>The bytes of a hash, \<^verbatim>\<open>h[:]\<close>.\<close>

abbreviation hashBytes :: "chainhash \<Rightarrow> byte list" where
  "hashBytes \<equiv> Rep_chainhash"

text \<open>The zero value \<^verbatim>\<open>chainhash.Hash{}\<close>.\<close>

definition zeroHash :: chainhash where
  "zeroHash = Abs_chainhash (replicate HashSize 0)"

text \<open>
  \<^verbatim>\<open>copy(dst[:], src)\<close> into a hash: the first \<open>min 32 (length src)\<close> bytes of \<open>dst\<close>
  are overwritten, the others stay.
\<close>

definition copyHash :: "chainhash \<Rightarrow> byte list \<Rightarrow> chainhash" where
  "copyHash dst src = Abs_chainhash (take HashSize src @ drop (length src) (hashBytes dst))"

text \<open>
  \<^verbatim>\<open>time.Time\<close>, as far as the header uses it: the instant as seconds since the epoch
  (\<^verbatim>\<open>t.Unix()\<close>) and the nanoseconds within the second (\<^verbatim>\<open>t.Nanosecond()\<close>).
\<close>

record Time =
  Unix :: int
  Nanosecond :: nat

text \<open>\<^verbatim>\<open>time.Unix(sec, nsec)\<close> for \<open>nsec\<close> below one second.\<close>

definition time_Unix :: "int \<Rightarrow> nat \<Rightarrow> Time" where
  "time_Unix sec nsec = \<lparr>Unix = sec, Nanosecond = nsec\<rparr>"

text \<open>The zero value \<^verbatim>\<open>time.Time{}\<close>: January 1, year 1, 00:00:00 UTC.\<close>

definition zeroTime :: Time where
  "zeroTime = \<lparr>Unix = - 62135596800, Nanosecond = 0\<rparr>"

record MerkleBranch =
  Branch :: "chainhash list"
  Index :: int32

text \<open>
  \<^verbatim>\<open>BlockHeader\<close> and \<^verbatim>\<open>Auxpow\<close> refer to each other: the header holds a pointer to
  its payload (\<open>None\<close> is \<^verbatim>\<open>nil\<close>), the payload holds the parent header by value.
  The transaction type \<^verbatim>\<open>MsgTx\<close> is a parameter \<open>'tx\<close>.
\<close>

datatype 'tx BlockHeader = MkBlockHeader
    (Version: int32)
    (PrevBlock: chainhash)
    (MerkleRoot: chainhash)
    (Timestamp: Time)
    (Bits: uint32)
    (Nonce: uint32)
    (Auxpow: "'tx Auxpow option")
and 'tx Auxpow = MkAuxpow
    (CoinbaseTxn: 'tx)
    (ParentBlockHash: chainhash)
    (CoinbaseBranch: MerkleBranch)
    (BlockchainBranch: MerkleBranch)
    (ParentBlock: "'tx BlockHeader")

text \<open>The zero value \<^verbatim>\<open>BlockHeader{}\<close>.\<close>

definition zeroBlockHeader :: "'tx BlockHeader" where
  "zeroBlockHeader = MkBlockHeader 0 zeroHash zeroHash zeroTime 0 0 None"

text \<open>
  \<^verbatim>\<open>NewBlockHeader\<close>, with the result of \<^verbatim>\<open>time.Now()\<close> as a parameter: the timestamp
  keeps its seconds only, the payload is \<^verbatim>\<open>nil\<close>.
\<close>

definition NewBlockHeader ::
  "Time \<Rightarrow> int32 \<Rightarrow> chainhash \<Rightarrow> chainhash \<Rightarrow> uint32 \<Rightarrow> uint32 \<Rightarrow> 'tx BlockHeader" where
  "NewBlockHeader now version prevHash merkleRootHash bits nonce =
     MkBlockHeader version prevHash merkleRootHash (time_Unix (Unix now) 0) bits nonce None"

definition MaxBlockHeaderPayloadNoAuxpow :: nat where
  "MaxBlockHeaderPayloadNoAuxpow = 16 + (HashSize * 2)"

definition BlockVersionAuxpow :: int32 where
  "BlockVersionAuxpow = push_bit 8 1"

definition BlockVersionChainStart :: int32 where
  "BlockVersionChainStart = push_bit 16 1"

subsection \<open>Errors and outcomes\<close>

text \<open>
  The \<^verbatim>\<open>error\<close> values a read can return: \<^verbatim>\<open>io.EOF\<close>, \<^verbatim>\<open>io.ErrUnexpectedEOF\<close>, and
  any other error of a collaborator.
\<close>

datatype error = EOF | ErrUnexpectedEOF | MessageError string

text \<open>
  What a call that fills a header through a pointer leaves behind: a \<^verbatim>\<open>nil\<close> error
  with the header as filled and the rest of the reader, a non-\<^verbatim>\<open>nil\<close> error with the
  header as the failed call left it, or a run-time panic.
\<close>

datatype 'h outcome = Done 'h "byte list" | Failed error 'h | Panicked

subsection \<open>Collaborators\<close>

text \<open>
  The transaction codec (\<^verbatim>\<open>MsgTx\<close>), the variable-length integer codec and the
  allocation limit of the run-time system are not part of this file of the program;
  the functions below take them as a parameter. \<open>maxAlloc\<close> is the largest number of
  bytes \<^verbatim>\<open>make\<close> accepts for one slice (\<open>2 ^ 48\<close> on linux/amd64).
\<close>

record 'tx collab =
  DeserializeNoWitness :: "byte list \<Rightarrow> error + 'tx \<times> byte list"
  SerializeNoWitness :: "'tx \<Rightarrow> byte list"
  SerializeSizeStripped :: "'tx \<Rightarrow> nat"
  ReadVarInt :: "byte list \<Rightarrow> uint32 \<Rightarrow> error + uint64 \<times> byte list"
  WriteVarInt :: "uint32 \<Rightarrow> uint64 \<Rightarrow> byte list"
  VarIntSerializeSize :: "uint64 \<Rightarrow> nat"
  maxAlloc :: nat

subsection \<open>Fixed-width elements\<close>

text \<open>
  Modelled from the spec: \<^verbatim>\<open>readElement\<close>, \<^verbatim>\<open>readElements\<close>, \<^verbatim>\<open>writeElement\<close> and
  \<^verbatim>\<open>writeElements\<close> (wire/common.go) are missing from the sources. The spec fixes
  what they do on the element types used here: 4-byte little-endian integers, raw
  32-byte hashes, the timestamp as 4-byte unsigned seconds; a read of a fixed byte
  count fails on a short stream ("unexpected end of stream"), and a sequence of
  elements is read in order up to the first failure.
\<close>

definition readFull :: "nat \<Rightarrow> byte list \<Rightarrow> error + byte list \<times> byte list" where
  "readFull n r =
     (if n \<le> length r then Inr (take n r, drop n r)
      else if r = [] then Inl EOF
      else Inl ErrUnexpectedEOF)"

definition putUint32 :: "uint32 \<Rightarrow> byte list" where
  "putUint32 v = [ucast v, ucast (drop_bit 8 v), ucast (drop_bit 16 v), ucast (drop_bit 24 v)]"

definition leUint32 :: "byte list \<Rightarrow> uint32" where
  "leUint32 b =
     ucast (b ! 0) OR push_bit 8 (ucast (b ! 1)) OR
     push_bit 16 (ucast (b ! 2)) OR push_bit 24 (ucast (b ! 3))"

definition readUint32 :: "byte list \<Rightarrow> error + uint32 \<times> byte list" where
  "readUint32 r =
     (case readFull 4 r of
        Inl e \<Rightarrow> Inl e
      | Inr (b, r') \<Rightarrow> Inr (leUint32 b, r'))"

definition readHash :: "byte list \<Rightarrow> error + chainhash \<times> byte list" where
  "readHash r =
     (case readFull HashSize r of
        Inl e \<Rightarrow> Inl e
      | Inr (b, r') \<Rightarrow> Inr (copyHash zeroHash b, r'))"

text \<open>\<^verbatim>\<open>uint32Time\<close>: the seconds read become \<^verbatim>\<open>time.Unix(int64(sec), 0)\<close>.\<close>

definition readUint32Time :: "byte list \<Rightarrow> error + Time \<times> byte list" where
  "readUint32Time r =
     (case readUint32 r of
        Inl e \<Rightarrow> Inl e
      | Inr (sec, r') \<Rightarrow> Inr (time_Unix (uint sec) 0, r'))"

subsection \<open>Accessors and sizes\<close>

definition IsAuxpow :: "'tx BlockHeader \<Rightarrow> bool" where
  "IsAuxpow h = (Version h AND BlockVersionAuxpow \<noteq> 0)"

text \<open>
  \<^verbatim>\<open>uint32(h.Version / BlockVersionChainStart)\<close>: Go's \<^verbatim>\<open>/\<close> on \<^verbatim>\<open>int32\<close> truncates
  towards zero (\<open>sdiv\<close>); the conversion to \<^verbatim>\<open>uint32\<close> keeps the bits.
\<close>

definition GetChainId :: "'tx BlockHeader \<Rightarrow> uint32" where
  "GetChainId h = word_of_int (sint (Version h) sdiv sint BlockVersionChainStart)"

definition Auxpow_SerializeSize :: "'tx collab \<Rightarrow> 'tx Auxpow \<Rightarrow> nat" where
  "Auxpow_SerializeSize ext a =
     SerializeSizeStripped ext (CoinbaseTxn a) +
     HashSize * (1 + length (Branch (CoinbaseBranch a)) + length (Branch (BlockchainBranch a))) +
     VarIntSerializeSize ext (of_nat (length (Branch (CoinbaseBranch a)))) +
     VarIntSerializeSize ext (of_nat (length (Branch (BlockchainBranch a)))) +
     4 * 2 +
     MaxBlockHeaderPayloadNoAuxpow"

definition SerializeSize :: "'tx collab \<Rightarrow> 'tx BlockHeader \<Rightarrow> nat" where
  "SerializeSize ext h =
     (if \<not> IsAuxpow h \<or> Auxpow h = None then MaxBlockHeaderPayloadNoAuxpow
      else MaxBlockHeaderPayloadNoAuxpow + Auxpow_SerializeSize ext (the (Auxpow h)))"

subsection \<open>Encoding\<close>

definition writeBlockHeaderNoAuxpow :: "'tx BlockHeader \<Rightarrow> byte list" where
  "writeBlockHeaderNoAuxpow bh =
     (let sec = (word_of_int (Unix (Timestamp bh)) :: uint32)
      in putUint32 (Version bh) @ hashBytes (PrevBlock bh) @ hashBytes (MerkleRoot bh) @
         putUint32 sec @ putUint32 (Bits bh) @ putUint32 (Nonce bh))"

definition writeAuxpow :: "'tx collab \<Rightarrow> uint32 \<Rightarrow> 'tx BlockHeader \<Rightarrow> byte list" where
  "writeAuxpow ext pver bh =
     (case Auxpow bh of
        None \<Rightarrow> []
      | Some a \<Rightarrow>
          SerializeNoWitness ext (CoinbaseTxn a) @
          hashBytes (ParentBlockHash a) @
          WriteVarInt ext pver (of_nat (length (Branch (CoinbaseBranch a)))) @
          concat (map hashBytes (Branch (CoinbaseBranch a))) @
          putUint32 (Index (CoinbaseBranch a)) @
          WriteVarInt ext pver (of_nat (length (Branch (BlockchainBranch a)))) @
          concat (map hashBytes (Branch (BlockchainBranch a))) @
          putUint32 (Index (BlockchainBranch a)) @
          writeBlockHeaderNoAuxpow (ParentBlock a))"

definition writeBlockHeader :: "'tx collab \<Rightarrow> uint32 \<Rightarrow> 'tx BlockHeader \<Rightarrow> byte list" where
  "writeBlockHeader ext pver bh =
     writeBlockHeaderNoAuxpow bh @ (if IsAuxpow bh then writeAuxpow ext pver bh else [])"

definition Serialize :: "'tx collab \<Rightarrow> 'tx BlockHeader \<Rightarrow> byte list" where
  "Serialize ext h = writeBlockHeader ext 0 h"

definition BtcEncode :: "'tx collab \<Rightarrow> uint32 \<Rightarrow> 'tx BlockHeader \<Rightarrow> byte list" where
  "BtcEncode ext pver h = writeBlockHeader ext pver h"

subsection \<open>Decoding\<close>

text \<open>
  The call \<^verbatim>\<open>readElements(r, &bh.Version, &bh.PrevBlock, &bh.MerkleRoot,
  (*uint32Time)(&bh.Timestamp), &bh.Bits, &bh.Nonce)\<close>: each field is stored as soon
  as it is read, so a failure leaves the fields before it filled.
\<close>

definition readHeaderFields :: "byte list \<Rightarrow> 'tx BlockHeader \<Rightarrow> 'tx BlockHeader outcome" where
  "readHeaderFields r bh =
     (case bh of MkBlockHeader v p m t b n a \<Rightarrow>
      (case readUint32 r of
         Inl e \<Rightarrow> Failed e (MkBlockHeader v p m t b n a)
       | Inr (v', r1) \<Rightarrow>
      (case readHash r1 of
         Inl e \<Rightarrow> Failed e (MkBlockHeader v' p m t b n a)
       | Inr (p', r2) \<Rightarrow>
      (case readHash r2 of
         Inl e \<Rightarrow> Failed e (MkBlockHeader v' p' m t b n a)
       | Inr (m', r3) \<Rightarrow>
      (case readUint32Time r3 of
         Inl e \<Rightarrow> Failed e (MkBlockHeader v' p' m' t b n a)
       | Inr (t', r4) \<Rightarrow>
      (case readUint32 r4 of
         Inl e \<Rightarrow> Failed e (MkBlockHeader v' p' m' t' b n a)
       | Inr (b', r5) \<Rightarrow>
      (case readUint32 r5 of
         Inl e \<Rightarrow> Failed e (MkBlockHeader v' p' m' t' b' n a)
       | Inr (n', r6) \<Rightarrow> Done (MkBlockHeader v' p' m' t' b' n' a) r6)))))))"

text \<open>
  \<^verbatim>\<open>make([]chainhash.Hash, count)\<close> with a \<^verbatim>\<open>uint64\<close> count: the run-time system
  panics (\<open>None\<close>) when the count does not fit \<^verbatim>\<open>int\<close> or the slice would exceed
  the allocation limit; otherwise the slice holds \<open>count\<close> zero hashes. Running out of
  memory below that limit is not modelled.
\<close>

definition makeHashes :: "nat \<Rightarrow> uint64 \<Rightarrow> chainhash list option" where
  "makeHashes lim count =
     (if unat count < 2 ^ 63 \<and> HashSize * unat count \<le> lim
      then Some (replicate (unat count) zeroHash)
      else None)"

text \<open>
  The loop \<^verbatim>\<open>for i := uint64(0); i < count; i++ { err = readElement(r, &branch[i]) ... }\<close>,
  from index \<open>i\<close> on.
\<close>

function readBranchHashes ::
  "nat \<Rightarrow> nat \<Rightarrow> byte list \<Rightarrow> chainhash list \<Rightarrow> error + chainhash list \<times> byte list" where
  "readBranchHashes i count r branch =
     (if i < count then
        (case readHash r of
           Inl e \<Rightarrow> Inl e
         | Inr (h, r') \<Rightarrow> readBranchHashes (i + 1) count r' (branch[i := h]))
      else Inr (branch, r))"
  by pat_completeness auto
termination
  by (relation "measure (\<lambda>(i, count, r, branch). count - i)") auto

declare readBranchHashes.simps [simp del]

definition readAuxpow ::
  "'tx collab \<Rightarrow> byte list \<Rightarrow> uint32 \<Rightarrow> 'tx BlockHeader \<Rightarrow> 'tx BlockHeader outcome" where
  "readAuxpow ext r pver bh =
     (if \<not> IsAuxpow bh then Done bh r
      else
      (case DeserializeNoWitness ext r of
         Inl e \<Rightarrow> Failed e bh
       | Inr (tx, r1) \<Rightarrow>
      (case readHash r1 of
         Inl e \<Rightarrow> Failed e bh
       | Inr (pbh, r2) \<Rightarrow>
      (case ReadVarInt ext r2 pver of
         Inl e \<Rightarrow> Failed e bh
       | Inr (count, r3) \<Rightarrow>
      (case makeHashes (maxAlloc ext) count of
         None \<Rightarrow> Panicked
       | Some cb0 \<Rightarrow>
      (case readBranchHashes 0 (unat count) r3 cb0 of
         Inl e \<Rightarrow> Failed e bh
       | Inr (cb, r4) \<Rightarrow>
      (case readUint32 r4 of
         Inl e \<Rightarrow> Failed e bh
       | Inr (cbi, r5) \<Rightarrow>
      (case ReadVarInt ext r5 pver of
         Inl e \<Rightarrow> Failed e bh
       | Inr (count', r6) \<Rightarrow>
      (case makeHashes (maxAlloc ext) count' of
         None \<Rightarrow> Panicked
       | Some bb0 \<Rightarrow>
      (case readBranchHashes 0 (unat count') r6 bb0 of
         Inl e \<Rightarrow> Failed e bh
       | Inr (bb, r7) \<Rightarrow>
      (case readUint32 r7 of
         Inl e \<Rightarrow> Failed e bh
       | Inr (bbi, r8) \<Rightarrow>
      (case readHeaderFields r8 zeroBlockHeader of
         Panicked \<Rightarrow> Panicked
       | Failed e pb \<Rightarrow> Failed e bh
       | Done pb r9 \<Rightarrow>
           (case bh of MkBlockHeader v p m t b n a \<Rightarrow>
              Done (MkBlockHeader v p m t b n
                (Some (MkAuxpow tx pbh \<lparr>Branch = cb, Index = cbi\<rparr>
                         \<lparr>Branch = bb, Index = bbi\<rparr> pb))) r9)))))))))))))"

definition readBlockHeader ::
  "'tx collab \<Rightarrow> byte list \<Rightarrow> uint32 \<Rightarrow> 'tx BlockHeader \<Rightarrow> 'tx BlockHeader outcome" where
  "readBlockHeader ext r pver bh =
     (case readHeaderFields r bh of
        Panicked \<Rightarrow> Panicked
      | Failed e bh' \<Rightarrow> Failed e bh'
      | Done bh' r' \<Rightarrow> readAuxpow ext r' pver bh')"

definition Deserialize :: "'tx collab \<Rightarrow> byte list \<Rightarrow> 'tx BlockHeader \<Rightarrow> 'tx BlockHeader outcome" where
  "Deserialize ext r h = readBlockHeader ext r 0 h"

definition BtcDecode ::
  "'tx collab \<Rightarrow> byte list \<Rightarrow> uint32 \<Rightarrow> 'tx BlockHeader \<Rightarrow> 'tx BlockHeader outcome" where
  "BtcDecode ext r pver h = readBlockHeader ext r pver h"

text \<open>
  \<^verbatim>\<open>GetBlockHeaderSize\<close> decodes into a fresh header, drops the error and sizes what
  the header holds then; \<open>None\<close> is a panic of the decoder, which nothing recovers.
\<close>

definition GetBlockHeaderSize :: "'tx collab \<Rightarrow> byte list \<Rightarrow> nat option" where
  "GetBlockHeaderSize ext raw =
     (case readBlockHeader ext raw 60002 zeroBlockHeader of
        Panicked \<Rightarrow> None
      | Failed e h \<Rightarrow> Some (SerializeSize ext h)
      | Done h r \<Rightarrow> Some (SerializeSize ext h))"

subsection \<open>Hashes\<close>

text \<open>
  \<^verbatim>\<open>chainhash.DoubleHashH\<close> and \<^verbatim>\<open>scrypt.Key\<close> are parameters: \<open>DoubleHashH\<close> maps
  bytes to a hash, \<open>scryptKey password salt N r p keyLen\<close> returns the derived key or
  an error.
\<close>

definition BlockHash :: "(byte list \<Rightarrow> chainhash) \<Rightarrow> 'tx BlockHeader \<Rightarrow> chainhash" where
  "BlockHash DoubleHashH h = DoubleHashH (writeBlockHeaderNoAuxpow h)"

definition PowHash ::
  "(byte list \<Rightarrow> byte list \<Rightarrow> nat \<Rightarrow> nat \<Rightarrow> nat \<Rightarrow> nat \<Rightarrow> error + byte list) \<Rightarrow>
   'tx BlockHeader \<Rightarrow> error + chainhash" where
  "PowHash scryptKey h =
     (let buf = writeBlockHeaderNoAuxpow h
      in case scryptKey buf buf 1024 1 1 32 of
           Inl err \<Rightarrow> Inl err
         | Inr scryptHash \<Rightarrow> Inr (copyHash zeroHash scryptHash))"

subsection \<open>Merkle branches\<close>

text \<open>
  The loop of \<^verbatim>\<open>Check\<close> over the branch: \<open>idx & 1\<close> picks the side of the running
  hash, \<open>idx >>= 1\<close> is the arithmetic shift of an \<^verbatim>\<open>int32\<close>.
\<close>

fun Check_loop ::
  "(byte list \<Rightarrow> chainhash) \<Rightarrow> chainhash list \<Rightarrow> int32 \<Rightarrow> chainhash \<Rightarrow> chainhash" where
  "Check_loop DoubleHashH [] idx thash = thash"
| "Check_loop DoubleHashH (it # rest) idx thash =
     (let scratch =
        (if idx AND 1 \<noteq> 0 then hashBytes it @ hashBytes thash
         else hashBytes thash @ hashBytes it)
      in Check_loop DoubleHashH rest (signed_drop_bit 1 idx) (DoubleHashH scratch))"

definition Check :: "(byte list \<Rightarrow> chainhash) \<Rightarrow> MerkleBranch \<Rightarrow> chainhash \<Rightarrow> chainhash" where
  "Check DoubleHashH b hash =
     (if Index b = - 1 then zeroHash
      else Check_loop DoubleHashH (Branch b) (Index b) hash)"

text \<open>
  The loop \<^verbatim>\<open>for i, j := 0, HashSize - 1; i < j; i, j = i + 1, j - 1\<close> that swaps
  \<open>thash[i]\<close> and \<open>thash[j]\<close>.
\<close>

function revert_loop :: "nat \<Rightarrow> nat \<Rightarrow> byte list \<Rightarrow> byte list" where
  "revert_loop i j thash =
     (if i < j then revert_loop (i + 1) (j - 1) (thash[i := thash ! j, j := thash ! i])
      else thash)"
  by pat_completeness auto
termination
  by (relation "measure (\<lambda>(i, j, thash). j - i)") auto

declare revert_loop.simps [simp del]

definition CheckAndRevert ::
  "(byte list \<Rightarrow> chainhash) \<Rightarrow> MerkleBranch \<Rightarrow> chainhash \<Rightarrow> chainhash" where
  "CheckAndRevert DoubleHashH b hash =
     (let thash = Check DoubleHashH b hash
      in Abs_chainhash (revert_loop 0 (HashSize - 1) (hashBytes thash)))"

subsection \<open>An instance of the collaborators\<close>

text \<open>
  Modelled from the spec: the transaction codec (wire/msgtx.go) and the
  variable-length integer codec (wire/common.go) are missing from the sources, and the
  spec names them only as collaborators that read and write a byte stream. To run the
  definitions above on concrete inputs, \<open>bareCollab\<close> instantiates them with the
  Bitcoin wire format: the variable-length integer with its one-byte discriminant and
  canonical-encoding check, and a transaction without inputs and outputs (version,
  two zero counts, lock time: ten bytes). The allocation limit is that of linux/amd64.
  No theorem about an arbitrary \<open>ext\<close> depends on this instance.
\<close>

record bareTx =
  TxVersion :: int32
  LockTime :: uint32

definition leUint :: "byte list \<Rightarrow> uint64" where
  "leUint b = foldr (\<lambda>x acc. ucast x OR push_bit 8 acc) b 0"

definition putUintLE :: "nat \<Rightarrow> uint64 \<Rightarrow> byte list" where
  "putUintLE n v = map (\<lambda>i. ucast (drop_bit (8 * i) v)) [0..<n]"

definition btcWriteVarInt :: "uint32 \<Rightarrow> uint64 \<Rightarrow> byte list" where
  "btcWriteVarInt pver val =
     (if val < 0xfd then [ucast val]
      else if val \<le> 0xffff then 0xfd # putUintLE 2 val
      else if val \<le> 0xffffffff then 0xfe # putUintLE 4 val
      else 0xff # putUintLE 8 val)"

definition btcReadVarInt :: "byte list \<Rightarrow> uint32 \<Rightarrow> error + uint64 \<times> byte list" where
  "btcReadVarInt r pver =
     (case r of
        [] \<Rightarrow> Inl EOF
      | d # r' \<Rightarrow>
          if d = 0xff then
            (case readFull 8 r' of
               Inl e \<Rightarrow> Inl e
             | Inr (b, r'') \<Rightarrow>
                 if leUint b < 0x100000000 then Inl (MessageError ''non-canonical varint'')
                 else Inr (leUint b, r''))
          else if d = 0xfe then
            (case readFull 4 r' of
               Inl e \<Rightarrow> Inl e
             | Inr (b, r'') \<Rightarrow>
                 if leUint b < 0x10000 then Inl (MessageError ''non-canonical varint'')
                 else Inr (leUint b, r''))
          else if d = 0xfd then
            (case readFull 2 r' of
               Inl e \<Rightarrow> Inl e
             | Inr (b, r'') \<Rightarrow>
                 if leUint b < 0xfd then Inl (MessageError ''non-canonical varint'')
                 else Inr (leUint b, r''))
          else Inr (ucast d, r'))"

definition btcVarIntSerializeSize :: "uint64 \<Rightarrow> nat" where
  "btcVarIntSerializeSize val =
     (if val < 0xfd then 1
      else if val \<le> 0xffff then 3
      else if val \<le> 0xffffffff then 5
      else 9)"

definition bareSerialize :: "bareTx \<Rightarrow> byte list" where
  "bareSerialize tx = putUint32 (TxVersion tx) @ [0] @ [0] @ putUint32 (LockTime tx)"

definition bareDeserialize :: "byte list \<Rightarrow> error + bareTx \<times> byte list" where
  "bareDeserialize r =
     (case readUint32 r of
        Inl e \<Rightarrow> Inl e
      | Inr (v, r1) \<Rightarrow>
      (case btcReadVarInt r1 0 of
         Inl e \<Rightarrow> Inl e
       | Inr (nin, r2) \<Rightarrow>
           if nin \<noteq> 0 then Inl (MessageError ''transaction inputs are not supported'')
           else
      (case btcReadVarInt r2 0 of
         Inl e \<Rightarrow> Inl e
       | Inr (nout, r3) \<Rightarrow>
           if nout \<noteq> 0 then Inl (MessageError ''transaction outputs are not supported'')
           else
      (case readUint32 r3 of
         Inl e \<Rightarrow> Inl e
       | Inr (l, r4) \<Rightarrow> Inr (\<lparr>TxVersion = v, LockTime = l\<rparr>, r4)))))"

definition bareCollab :: "bareTx collab" where
  "bareCollab =
     \<lparr>DeserializeNoWitness = bareDeserialize,
      SerializeNoWitness = bareSerialize,
      SerializeSizeStripped = (\<lambda>tx. 10),
      ReadVarInt = btcReadVarInt,
      WriteVarInt = btcWriteVarInt,
      VarIntSerializeSize = btcVarIntSerializeSize,
      maxAlloc = 2 ^ 48\<rparr>"

subsection \<open>What a round trip needs\<close>

text \<open>
  The wire holds a timestamp as unsigned 32-bit seconds: only a whole number of
  seconds from 1970 up to 2106 comes back as it was.
\<close>

definition wireTime :: "Time \<Rightarrow> bool" where
  "wireTime t = (0 \<le> Unix t \<and> Unix t < 2 ^ 32 \<and> Nanosecond t = 0)"

text \<open>
  The transaction codec reads back what it wrote for the transaction \<open>tx\<close>, whatever
  follows in the stream, and sizes it as written.
\<close>

definition txCodecAt :: "'tx collab \<Rightarrow> 'tx \<Rightarrow> bool" where
  "txCodecAt ext tx =
     ((\<forall>rest. DeserializeNoWitness ext (SerializeNoWitness ext tx @ rest) = Inr (tx, rest)) \<and>
      SerializeSizeStripped ext tx = length (SerializeNoWitness ext tx))"

text \<open>
  The variable-length integer codec reads back the length of the branch \<open>b\<close> and sizes
  it as written, and a slice of that length exists (its length fits \<^verbatim>\<open>int\<close> and its
  bytes the allocation limit, as for every slice of a running program).
\<close>

definition branchCodecAt :: "'tx collab \<Rightarrow> uint32 \<Rightarrow> MerkleBranch \<Rightarrow> bool" where
  "branchCodecAt ext pver b =
     ((\<forall>rest. ReadVarInt ext (WriteVarInt ext pver (of_nat (length (Branch b))) @ rest) pver =
              Inr (of_nat (length (Branch b)), rest)) \<and>
      VarIntSerializeSize ext (of_nat (length (Branch b))) =
        length (WriteVarInt ext pver (of_nat (length (Branch b)))) \<and>
      length (Branch b) < 2 ^ 63 \<and>
      HashSize * length (Branch b) \<le> maxAlloc ext)"

subsection \<open>Sample values\<close>

text \<open>
  Concrete headers at which the theorems below are instantiated: a payload with a
  one-hash coinbase branch and an empty blockchain branch around a parent header, a
  header that carries it with the AuxPoW bit set (version \<open>0x101\<close>), one that carries it
  with the bit clear, one with the bit set and no payload, and one whose timestamp
  has a nanosecond part.
\<close>

definition sampleParent :: "bareTx BlockHeader" where
  "sampleParent = MkBlockHeader 2 zeroHash zeroHash (time_Unix 1231006505 0) 0x1d00ffff 7 None"

definition sampleAuxpow :: "bareTx Auxpow" where
  "sampleAuxpow =
     MkAuxpow \<lparr>TxVersion = 1, LockTime = 0\<rparr> zeroHash
       \<lparr>Branch = [zeroHash], Index = 0\<rparr> \<lparr>Branch = [], Index = 5\<rparr> sampleParent"

definition sampleAuxHeader :: "bareTx BlockHeader" where
  "sampleAuxHeader =
     MkBlockHeader 0x101 zeroHash zeroHash (time_Unix 1400000000 0) 0x1e0ffff0 42
       (Some sampleAuxpow)"

definition samplePlainHeader :: "bareTx BlockHeader" where
  "samplePlainHeader =
     MkBlockHeader 1 zeroHash zeroHash (time_Unix 1231006505 0) 0x1d00ffff 2083236893 None"

definition sampleClearWithPayload :: "bareTx BlockHeader" where
  "sampleClearWithPayload =
     MkBlockHeader 1 zeroHash zeroHash (time_Unix 1231006505 0) 0x1d00ffff 0 (Some sampleAuxpow)"

definition sampleFlagOnly :: "bareTx BlockHeader" where
  "sampleFlagOnly =
     MkBlockHeader 0x100 zeroHash zeroHash (time_Unix 1400000000 0) 0x1e0ffff0 0 None"

definition sampleSubSecond :: "bareTx BlockHeader" where
  "sampleSubSecond =
     MkBlockHeader 1 zeroHash zeroHash (time_Unix 1231006505 1) 0x1d00ffff 0 None"

text \<open>
  A stream of 131 bytes: a core header with version \<open>0x100\<close> and zero fields, the ten
  bytes of a transaction without inputs and outputs, a zero parent-block hash, and the
  nine-byte variable-length integer \<open>2 ^ 64 - 1\<close> as the length of the coinbase
  branch. Nothing follows the count.
\<close>

definition hugeCountInput :: "byte list" where
  "hugeCountInput =
     [0, 1, 0, 0] @ replicate 76 0 @
     [1, 0, 0, 0, 0, 0, 0, 0, 0, 0] @
     replicate 32 0 @
     [0xff, 0xff, 0xff, 0xff, 0xff, 0xff, 0xff, 0xff, 0xff]"

section \<open>Properties\<close>

subsection \<open>Hashes, elements and loops\<close>

lemma length_hashBytes [simp]: "length (hashBytes h) = HashSize"
  using Rep_chainhash [of h] by simp

lemma hashBytes_zeroHash: "hashBytes zeroHash = replicate HashSize 0"
  by (simp add: zeroHash_def Abs_chainhash_inverse)

lemma copyHash_hashBytes [simp]: "copyHash dst (hashBytes h) = h"
  by (simp add: copyHash_def Rep_chainhash_inverse)

lemma le_bytes_uint32:
  "ucast (ucast v :: byte) OR push_bit 8 (ucast (ucast (drop_bit 8 v) :: byte)) OR
   push_bit 16 (ucast (ucast (drop_bit 16 v) :: byte)) OR
   push_bit 24 (ucast (ucast (drop_bit 24 v) :: byte)) = (v :: uint32)"
  (is "?w = v")
proof (rule bit_word_eqI)
  fix n :: nat
  assume "n < LENGTH(32)"
  then have n: "n < 32" by simp
  have a: "24 + (n - 24) = n" if "24 \<le> n" using that by simp
  have b: "16 + (n - 16) = n" if "16 \<le> n" using that by simp
  have c: "8 + (n - 8) = n" if "8 \<le> n" using that by simp
  consider "n < 8" | "8 \<le> n" "n < 16" | "16 \<le> n" "n < 24" | "24 \<le> n"
    by linarith
  then show "bit ?w n = bit v n"
    using n by cases (auto simp: bit_simps a b c)
qed

lemma leUint32_putUint32 [simp]: "leUint32 (putUint32 v) = v"
  by (simp add: leUint32_def putUint32_def le_bytes_uint32)

lemma length_putUint32 [simp]: "length (putUint32 v) = 4"
  by (simp add: putUint32_def)

lemma readFull_append [simp]: "length b = n \<Longrightarrow> readFull n (b @ rest) = Inr (b, rest)"
  by (simp add: readFull_def)

lemma readFull_short: "length r < n \<Longrightarrow> \<exists>e. readFull n r = Inl e"
  by (simp add: readFull_def)

lemma readUint32_putUint32 [simp]: "readUint32 (putUint32 v @ rest) = Inr (v, rest)"
  by (simp add: readUint32_def)

lemma readHash_hashBytes [simp]: "readHash (hashBytes h @ rest) = Inr (h, rest)"
  by (simp add: readHash_def)

lemma length_writeBlockHeaderNoAuxpow [simp]:
  "length (writeBlockHeaderNoAuxpow h) = 80"
  by (simp add: writeBlockHeaderNoAuxpow_def Let_def)

lemma readHeaderFields_core:
  "readHeaderFields (writeBlockHeaderNoAuxpow h @ rest) bh =
     Done (MkBlockHeader (Version h) (PrevBlock h) (MerkleRoot h)
             (time_Unix (uint (word_of_int (Unix (Timestamp h)) :: uint32)) 0)
             (Bits h) (Nonce h) (Auxpow bh)) rest"
  by (cases bh)
    (simp add: readHeaderFields_def writeBlockHeaderNoAuxpow_def Let_def readUint32Time_def)

lemma readBranchHashes_from:
  "length br = length hs \<Longrightarrow> i \<le> length hs \<Longrightarrow>
   readBranchHashes i (length hs) (concat (map hashBytes (drop i hs)) @ rest) br =
     Inr (take i br @ drop i hs, rest)"
proof (induction "length hs - i" arbitrary: i br)
  case 0
  then show ?case by (simp add: readBranchHashes.simps)
next
  case (Suc d)
  then have lt: "i < length hs" by simp
  then have dr: "drop i hs = hs ! i # drop (Suc i) hs"
    by (simp add: Cons_nth_drop_Suc)
  have d: "d = length hs - Suc i" using Suc.hyps(2) by simp
  have ih: "readBranchHashes (Suc i) (length hs)
              (concat (map hashBytes (drop (Suc i) hs)) @ rest) (br[i := hs ! i]) =
            Inr (take (Suc i) (br[i := hs ! i]) @ drop (Suc i) hs, rest)"
    using Suc.hyps(1) [OF d] Suc.prems lt by simp
  have tk: "take (Suc i) (br[i := hs ! i]) = take i br @ [hs ! i]"
    using lt Suc.prems(1) by (simp add: take_Suc_conv_app_nth)
  show ?case
    using lt ih by (subst readBranchHashes.simps) (simp add: dr tk)
qed

lemma readBranchHashes_all:
  "readBranchHashes 0 (length hs) (concat (map hashBytes hs) @ rest)
     (replicate (length hs) zeroHash) = Inr (hs, rest)"
  using readBranchHashes_from [of "replicate (length hs) zeroHash" hs 0 rest] by simp

lemma length_revert_loop [simp]: "length (revert_loop i j xs) = length xs"
  by (induction i j xs rule: revert_loop.induct) (subst revert_loop.simps, simp)

lemma revert_loop_nth:
  "j < length xs \<Longrightarrow> k < length xs \<Longrightarrow>
   revert_loop i j xs ! k = (if i \<le> k \<and> k \<le> j then xs ! (i + j - k) else xs ! k)"
proof (induction i j xs rule: revert_loop.induct)
  case (1 i j thash)
  show ?case
  proof (cases "i < j")
    case False
    then have "i + j - k = k" if "i \<le> k" "k \<le> j" using that by linarith
    with False show ?thesis by (subst revert_loop.simps) auto
  next
    case True
    let ?t = "thash[i := thash ! j, j := thash ! i]"
    have ih: "revert_loop (i + 1) (j - 1) ?t ! k =
        (if i + 1 \<le> k \<and> k \<le> j - 1 then ?t ! (i + 1 + (j - 1) - k) else ?t ! k)"
      using "1.IH" [OF True] "1.prems" True by simp
    have idx: "i + 1 + (j - 1) - k = i + j - k" using True by simp
    show ?thesis
      using True "1.prems" ih
      by (subst revert_loop.simps) (auto simp: idx nth_list_update)
  qed
qed

lemma revert_loop_rev: "length xs = HashSize \<Longrightarrow> revert_loop 0 31 xs = rev xs"
  by (rule nth_equalityI) (simp_all add: revert_loop_nth rev_nth)

subsection \<open>Header hashes\<close>

text \<open>
  C5: both header hashes ignore the AuxPoW payload. Two headers with the same version,
  previous-block hash, Merkle root, timestamp, bits and nonce have the same
  \<open>BlockHash\<close> and the same \<open>PowHash\<close> whatever their \<open>Auxpow\<close> fields hold: each hash
  is taken over the 80 bytes of the core serialization, which does not read the field.
\<close>

theorem hashes_ignore_auxpow:
  "BlockHash DoubleHashH (MkBlockHeader v p m t b n a) =
     BlockHash DoubleHashH (MkBlockHeader v p m t b n a') \<and>
   PowHash scryptKey (MkBlockHeader v p m t b n a) =
     PowHash scryptKey (MkBlockHeader v p m t b n a') \<and>
   BlockHash DoubleHashH (MkBlockHeader v p m t b n a) =
     DoubleHashH (writeBlockHeaderNoAuxpow (MkBlockHeader v p m t b n None)) \<and>
   length (writeBlockHeaderNoAuxpow (MkBlockHeader v p m t b n None)) = 80"
  by (simp add: BlockHash_def PowHash_def writeBlockHeaderNoAuxpow_def Let_def)

subsection \<open>Merkle branches\<close>

text \<open>
  C6: with index \<open>- 1\<close>, \<open>Check\<close> returns the all-zero 32-byte hash for every branch
  and every leaf hash; the function has no error result, so this is a normal return.
\<close>

theorem Check_sentinel:
  "Check DoubleHashH \<lparr>Branch = branch, Index = - 1\<rparr> leaf = zeroHash \<and>
   hashBytes zeroHash = replicate HashSize 0"
  by (simp add: Check_def hashBytes_zeroHash)

text \<open>
  C7: over the one-element branch \<open>[s]\<close>, \<open>Check\<close> returns the double hash of
  \<open>leaf ++ s\<close> when the index is 0 and of \<open>s ++ leaf\<close> when the index is 1.
\<close>

theorem Check_single_level:
  "Check DoubleHashH \<lparr>Branch = [s], Index = 0\<rparr> leaf =
     DoubleHashH (hashBytes leaf @ hashBytes s) \<and>
   Check DoubleHashH \<lparr>Branch = [s], Index = 1\<rparr> leaf =
     DoubleHashH (hashBytes s @ hashBytes leaf)"
  by (simp add: Check_def)

text \<open>
  C8: for every branch, index and leaf hash, the bytes of \<open>CheckAndRevert\<close> are the
  bytes of \<open>Check\<close> on the same inputs in reverse order.
\<close>

theorem CheckAndRevert_reverses:
  "hashBytes (CheckAndRevert DoubleHashH b leaf) = rev (hashBytes (Check DoubleHashH b leaf))"
  by (simp add: CheckAndRevert_def Let_def revert_loop_rev Abs_chainhash_inverse)

subsection \<open>The version flag decides the wire form\<close>

text \<open>
  C9: when the AuxPoW bit of the version is clear, \<open>writeBlockHeader\<close> writes exactly
  the 80-byte core form and \<open>SerializeSize\<close> is 80, also when the \<open>Auxpow\<close> field is
  not \<^verbatim>\<open>nil\<close>: a payload on a flag-clear header is never serialized.
\<close>

theorem flag_clear_core_only:
  "\<not> IsAuxpow h \<Longrightarrow>
   writeBlockHeader ext pver h = writeBlockHeaderNoAuxpow h \<and>
   length (writeBlockHeader ext pver h) = 80 \<and>
   SerializeSize ext h = 80"
  by (simp add: writeBlockHeader_def SerializeSize_def MaxBlockHeaderPayloadNoAuxpow_def)

theorem flag_clear_core_only_witness:
  "Auxpow sampleClearWithPayload \<noteq> None \<and>
   \<not> IsAuxpow sampleClearWithPayload \<and>
   writeBlockHeader bareCollab 0 sampleClearWithPayload =
     writeBlockHeaderNoAuxpow sampleClearWithPayload \<and>
   length (writeBlockHeader bareCollab 0 sampleClearWithPayload) = 80 \<and>
   SerializeSize bareCollab sampleClearWithPayload = 80"
proof -
  have f: "\<not> IsAuxpow sampleClearWithPayload"
    by (simp add: IsAuxpow_def BlockVersionAuxpow_def sampleClearWithPayload_def)
  have "Auxpow sampleClearWithPayload \<noteq> None"
    by (simp add: sampleClearWithPayload_def)
  then show ?thesis
    using f flag_clear_core_only [OF f, of bareCollab 0] by simp
qed

subsection \<open>The chain identifier\<close>

lemma sdiv_65536:
  fixes k r :: int
  assumes "0 \<le> r" "r < 65536"
  shows "(65536 * k + r) sdiv 65536 = (if 0 \<le> k \<or> r = 0 then k else k + 1)"
proof (cases "0 \<le> k")
  case True
  then have nn: "0 \<le> 65536 * k + r" using assms by simp
  have dv: "(65536 * k + r) div 65536 = k" using assms by simp
  show ?thesis
  proof (cases "65536 * k + r = 0")
    case z: True
    then have "k = 0" using True assms by linarith
    with z show ?thesis by simp
  next
    case nz: False
    with nn have "0 < 65536 * k + r" by simp
    then show ?thesis using True dv by (simp add: signed_divide_int_def)
  qed
next
  case False
  then have neg: "65536 * k + r < 0" using assms by simp
  have "\<bar>65536 * k + r\<bar> = 65536 * (- k - 1) + (65536 - r)" using neg by simp
  then have d: "\<bar>65536 * k + r\<bar> div 65536 = (65536 * (- k - 1) + (65536 - r)) div 65536"
    by simp
  show ?thesis
  proof (cases "r = 0")
    case True
    then show ?thesis using False by (simp add: signed_divide_int_def sgn_if)
  next
    case r: False
    then have "0 \<le> 65536 - r" "65536 - r < 65536" using assms by simp_all
    then have "(65536 * (- k - 1) + (65536 - r)) div 65536 = - k - 1"
      by simp
    with d neg r False show ?thesis by (simp add: signed_divide_int_def sgn_if)
  qed
qed

text \<open>
  C2, as stated: for a version \<open>65536 * k + r\<close> with \<open>0 \<le> r < 65536\<close>, \<open>GetChainId\<close>
  returns \<open>k\<close>, also for negative \<open>k\<close>. This fails at version \<open>- 65535\<close>
  (\<open>k = - 1\<close>, \<open>r = 1\<close>): the division truncates towards zero and the result is 0,
  not \<open>0xffffffff\<close>.
\<close>

theorem GetChainId_counterexample:
  "(0::int) \<le> 1 \<and> (1::int) < 65536 \<and>
   GetChainId (MkBlockHeader (word_of_int (65536 * (- 1) + 1)) zeroHash zeroHash zeroTime 0 0
      (None :: bareTx Auxpow option)) = 0 \<and>
   (0 :: uint32) \<noteq> word_of_int (- 1)"
  by (simp add: GetChainId_def BlockVersionChainStart_def signed_divide_int_def)

text \<open>
  C2, amended: for a version \<open>65536 * k + r\<close> within the signed 32-bit range, with
  \<open>0 \<le> r < 65536\<close>, \<open>GetChainId\<close> returns \<open>k\<close> (as \<^verbatim>\<open>uint32\<close>) when \<open>k\<close> is not
  negative or \<open>r = 0\<close>, and \<open>k + 1\<close> otherwise: Go's division truncates towards zero.
\<close>

theorem GetChainId_truncates:
  fixes k r :: int
  assumes "0 \<le> r" "r < 65536" "- (2 ^ 31) \<le> 65536 * k + r" "65536 * k + r < 2 ^ 31"
  shows "GetChainId (MkBlockHeader (word_of_int (65536 * k + r)) p m t b n a) =
           word_of_int (if 0 \<le> k \<or> r = 0 then k else k + 1)"
proof -
  have "sint (word_of_int x :: int32) = x" if "- (2 ^ 31) \<le> x" "x < 2 ^ 31" for x :: int
    using that by (simp add: sint_sbintrunc' signed_take_bit_int_eq_self)
  from this [OF assms(3,4)]
  have "sint (word_of_int (65536 * k + r) :: int32) = 65536 * k + r" .
  moreover have "sint BlockVersionChainStart = 65536"
    by (simp add: BlockVersionChainStart_def)
  ultimately show ?thesis
    using sdiv_65536 [OF assms(1,2), of k] by (simp add: GetChainId_def)
qed

theorem GetChainId_truncates_witness:
  "GetChainId (MkBlockHeader (word_of_int (65536 * (- 3) + 257)) zeroHash zeroHash zeroTime 0 0
      (None :: bareTx Auxpow option)) = word_of_int (- 2) \<and>
   GetChainId (MkBlockHeader (word_of_int (65536 * 3 + 257)) zeroHash zeroHash zeroTime 0 0
      (None :: bareTx Auxpow option)) = word_of_int 3"
proof -
  have r: "(0::int) \<le> 257" "(257::int) < 65536" by simp_all
  have n: "- (2 ^ 31) \<le> 65536 * (- 3) + (257::int)" "65536 * (- 3) + (257::int) < 2 ^ 31"
    by simp_all
  have p: "- (2 ^ 31) \<le> 65536 * 3 + (257::int)" "65536 * 3 + (257::int) < 2 ^ 31"
    by simp_all
  have a: "GetChainId (MkBlockHeader (word_of_int (65536 * (- 3) + 257)) zeroHash zeroHash
      zeroTime 0 0 (None :: bareTx Auxpow option)) = word_of_int (if (0::int) \<le> - 3 \<or> (257::int) = 0 then - 3 else - 3 + 1)"
    by (rule GetChainId_truncates [OF r n])
  have b: "GetChainId (MkBlockHeader (word_of_int (65536 * 3 + 257)) zeroHash zeroHash
      zeroTime 0 0 (None :: bareTx Auxpow option)) = word_of_int (if (0::int) \<le> 3 \<or> (257::int) = 0 then 3 else 3 + 1)"
    by (rule GetChainId_truncates [OF r p])
  have "(if (0::int) \<le> - 3 \<or> (257::int) = 0 then - 3 else - 3 + 1) = (- 2 :: int)" by simp
  moreover have "(if (0::int) \<le> 3 \<or> (257::int) = 0 then 3 else 3 + 1) = (3 :: int)" by simp
  ultimately show ?thesis using a b by (simp only:)
qed

subsection \<open>Decoding what was encoded\<close>

lemma wireTime_roundtrip:
  "wireTime t \<Longrightarrow> time_Unix (uint (word_of_int (Unix t) :: uint32)) 0 = t"
  by (simp add: wireTime_def time_Unix_def uint_word_of_int_eq take_bit_int_eq_self)

lemma length_concat_hashBytes [simp]: "length (concat (map hashBytes hs)) = HashSize * length hs"
  by (induction hs) simp_all

lemma makeHashes_length:
  "n < 2 ^ 63 \<Longrightarrow> HashSize * n \<le> lim \<Longrightarrow>
   makeHashes lim (of_nat n) = Some (replicate n zeroHash) \<and> unat (of_nat n :: uint64) = n"
proof -
  assume n: "n < 2 ^ 63" and l: "HashSize * n \<le> lim"
  have "n < 2 ^ 64" using n by simp
  then have u: "unat (of_nat n :: uint64) = n"
    by (simp add: unat_of_nat)
  with n l show ?thesis by (simp add: makeHashes_def)
qed

lemma readAuxpow_fails_at_tx:
  "IsAuxpow bh \<Longrightarrow> DeserializeNoWitness ext r = Inl e \<Longrightarrow> readAuxpow ext r pver bh = Failed e bh"
  by (simp add: readAuxpow_def)

lemma bareDeserialize_empty: "DeserializeNoWitness bareCollab [] = Inl EOF"
  by (simp add: bareCollab_def bareDeserialize_def readUint32_def readFull_def)

text \<open>
  C1, as stated: a header with the AuxPoW bit set and no payload encodes to the 80-byte
  core form, and decoding these 80 bytes returns no error and a header without
  payload. The decoding half fails: \<open>readAuxpow\<close> sees the bit and calls the
  transaction decoder on the empty rest of the stream, whose error it returns.
\<close>

theorem flag_without_payload_counterexample:
  "IsAuxpow sampleFlagOnly \<and> Auxpow sampleFlagOnly = None \<and>
   length (writeBlockHeader bareCollab 0 sampleFlagOnly) = 80 \<and>
   readBlockHeader bareCollab (writeBlockHeader bareCollab 0 sampleFlagOnly) 0 zeroBlockHeader =
     Failed EOF sampleFlagOnly"
proof -
  have w: "writeBlockHeader bareCollab 0 sampleFlagOnly = writeBlockHeaderNoAuxpow sampleFlagOnly @ []"
    by (simp add: writeBlockHeader_def writeAuxpow_def sampleFlagOnly_def)
  have f: "IsAuxpow sampleFlagOnly"
    by (simp add: IsAuxpow_def BlockVersionAuxpow_def sampleFlagOnly_def)
  have "readBlockHeader bareCollab (writeBlockHeaderNoAuxpow sampleFlagOnly @ []) 0 zeroBlockHeader =
     Failed EOF sampleFlagOnly"
    unfolding readBlockHeader_def readHeaderFields_core
    using f bareDeserialize_empty
    by (simp add: readAuxpow_def sampleFlagOnly_def zeroBlockHeader_def time_Unix_def)
  with w f show ?thesis by (simp add: sampleFlagOnly_def)
qed

text \<open>
  C1, amended: a header with the AuxPoW bit set and no payload encodes to exactly the
  80-byte core form; decoding these 80 bytes fills the six core fields, then hands the
  empty rest of the stream to the transaction decoder and fails with the error that
  decoder returns on an empty stream, leaving the \<open>Auxpow\<close> field of the target as
  it was.
\<close>

theorem flag_without_payload:
  assumes "IsAuxpow h" "Auxpow h = None" "DeserializeNoWitness ext [] = Inl e"
  shows "writeBlockHeader ext pver h = writeBlockHeaderNoAuxpow h \<and>
         length (writeBlockHeader ext pver h) = 80 \<and>
         readBlockHeader ext (writeBlockHeader ext pver h) pver' bh =
           Failed e (MkBlockHeader (Version h) (PrevBlock h) (MerkleRoot h)
                       (time_Unix (uint (word_of_int (Unix (Timestamp h)) :: uint32)) 0)
                       (Bits h) (Nonce h) (Auxpow bh))"
proof -
  have w: "writeBlockHeader ext pver h = writeBlockHeaderNoAuxpow h"
    using assms(2) by (simp add: writeBlockHeader_def writeAuxpow_def)
  have f: "IsAuxpow (MkBlockHeader (Version h) (PrevBlock h) (MerkleRoot h)
                       (time_Unix (uint (word_of_int (Unix (Timestamp h)) :: uint32)) 0)
                       (Bits h) (Nonce h) (Auxpow bh))"
    using assms(1) by (simp add: IsAuxpow_def)
  have "readBlockHeader ext (writeBlockHeaderNoAuxpow h @ []) pver' bh =
           Failed e (MkBlockHeader (Version h) (PrevBlock h) (MerkleRoot h)
                       (time_Unix (uint (word_of_int (Unix (Timestamp h)) :: uint32)) 0)
                       (Bits h) (Nonce h) (Auxpow bh))"
    unfolding readBlockHeader_def readHeaderFields_core
    using readAuxpow_fails_at_tx [OF f assms(3)] by simp
  with w show ?thesis by simp
qed

theorem flag_without_payload_witness:
  "IsAuxpow sampleFlagOnly \<and> Auxpow sampleFlagOnly = None \<and>
   DeserializeNoWitness bareCollab [] = Inl EOF \<and>
   writeBlockHeader bareCollab 0 sampleFlagOnly = writeBlockHeaderNoAuxpow sampleFlagOnly \<and>
   (\<exists>h'. readBlockHeader bareCollab (writeBlockHeader bareCollab 0 sampleFlagOnly) 0
       (zeroBlockHeader :: bareTx BlockHeader) = Failed EOF h' \<and> Auxpow h' = None)"
proof -
  have f: "IsAuxpow sampleFlagOnly"
    by (simp add: IsAuxpow_def BlockVersionAuxpow_def sampleFlagOnly_def)
  have n: "Auxpow sampleFlagOnly = None"
    by (simp add: sampleFlagOnly_def)
  have z: "Auxpow (zeroBlockHeader :: bareTx BlockHeader) = None"
    by (simp add: zeroBlockHeader_def)
  note t = flag_without_payload [OF f n bareDeserialize_empty, of 0 0 zeroBlockHeader]
  from t have w: "writeBlockHeader bareCollab 0 sampleFlagOnly = writeBlockHeaderNoAuxpow sampleFlagOnly"
    by (rule conjunct1)
  from t z have "\<exists>h'. readBlockHeader bareCollab (writeBlockHeader bareCollab 0 sampleFlagOnly) 0
       (zeroBlockHeader :: bareTx BlockHeader) = Failed EOF h' \<and> Auxpow h' = None"
    by auto
  with f n w bareDeserialize_empty show ?thesis by (intro conjI)
qed

lemma header_eta:
  "MkBlockHeader (Version h) (PrevBlock h) (MerkleRoot h) (Timestamp h) (Bits h) (Nonce h) (Auxpow h) = h"
  by (cases h) simp

lemma readBlockHeader_plain:
  assumes "\<not> IsAuxpow h"
  shows "readBlockHeader ext (writeBlockHeader ext pver h @ rest) pver' bh =
           Done (MkBlockHeader (Version h) (PrevBlock h) (MerkleRoot h)
                   (time_Unix (uint (word_of_int (Unix (Timestamp h)) :: uint32)) 0)
                   (Bits h) (Nonce h) (Auxpow bh)) rest"
proof -
  have "\<not> IsAuxpow (MkBlockHeader (Version h) (PrevBlock h) (MerkleRoot h)
                   (time_Unix (uint (word_of_int (Unix (Timestamp h)) :: uint32)) 0)
                   (Bits h) (Nonce h) (Auxpow bh))"
    using assms by (simp add: IsAuxpow_def)
  then show ?thesis
    using assms
    by (simp add: readBlockHeader_def writeBlockHeader_def readHeaderFields_core readAuxpow_def)
qed

lemma readAuxpow_payload:
  assumes flag: "IsAuxpow bh"
    and tx: "txCodecAt ext (CoinbaseTxn a)"
    and cb: "branchCodecAt ext pver (CoinbaseBranch a)"
    and bb: "branchCodecAt ext pver (BlockchainBranch a)"
    and g: "Auxpow g = Some a"
  shows "readAuxpow ext (writeAuxpow ext pver g @ rest) pver bh =
           Done (MkBlockHeader (Version bh) (PrevBlock bh) (MerkleRoot bh) (Timestamp bh)
                   (Bits bh) (Nonce bh)
                   (Some (MkAuxpow (CoinbaseTxn a) (ParentBlockHash a) (CoinbaseBranch a)
                      (BlockchainBranch a)
                      (MkBlockHeader (Version (ParentBlock a)) (PrevBlock (ParentBlock a))
                         (MerkleRoot (ParentBlock a))
                         (time_Unix (uint (word_of_int (Unix (Timestamp (ParentBlock a))) :: uint32)) 0)
                         (Bits (ParentBlock a)) (Nonce (ParentBlock a)) None)))) rest"
proof -
  have t: "DeserializeNoWitness ext (SerializeNoWitness ext (CoinbaseTxn a) @ r) =
             Inr (CoinbaseTxn a, r)" for r
    using tx by (simp add: txCodecAt_def)
  have v1: "ReadVarInt ext (WriteVarInt ext pver (of_nat (length (Branch (CoinbaseBranch a)))) @ r) pver =
              Inr (of_nat (length (Branch (CoinbaseBranch a))), r)" for r
    using cb by (simp add: branchCodecAt_def)
  have v2: "ReadVarInt ext (WriteVarInt ext pver (of_nat (length (Branch (BlockchainBranch a)))) @ r) pver =
              Inr (of_nat (length (Branch (BlockchainBranch a))), r)" for r
    using bb by (simp add: branchCodecAt_def)
  have m1: "makeHashes (maxAlloc ext) (of_nat (length (Branch (CoinbaseBranch a)))) =
              Some (replicate (length (Branch (CoinbaseBranch a))) zeroHash)"
       "unat (of_nat (length (Branch (CoinbaseBranch a))) :: uint64) = length (Branch (CoinbaseBranch a))"
    using cb makeHashes_length [of "length (Branch (CoinbaseBranch a))" "maxAlloc ext"]
    by (simp_all add: branchCodecAt_def)
  have m2: "makeHashes (maxAlloc ext) (of_nat (length (Branch (BlockchainBranch a)))) =
              Some (replicate (length (Branch (BlockchainBranch a))) zeroHash)"
       "unat (of_nat (length (Branch (BlockchainBranch a))) :: uint64) = length (Branch (BlockchainBranch a))"
    using bb makeHashes_length [of "length (Branch (BlockchainBranch a))" "maxAlloc ext"]
    by (simp_all add: branchCodecAt_def)
  have z: "Auxpow (zeroBlockHeader :: 'a BlockHeader) = None"
    by (simp add: zeroBlockHeader_def)
  show ?thesis
    using flag g
    by (cases bh)
      (simp add: readAuxpow_def writeAuxpow_def t v1 v2 m1 m2 readBranchHashes_all
         readHeaderFields_core z)
qed

lemma roundtrip_plain:
  assumes plain: "\<not> IsAuxpow h" "Auxpow h = None" "wireTime (Timestamp h)"
  shows "readBlockHeader ext (writeBlockHeader ext pver h @ rest) pver zeroBlockHeader = Done h rest \<and>
         SerializeSize ext h = length (writeBlockHeader ext pver h) \<and>
         length (writeBlockHeader ext pver h) = 80"
proof -
  have z: "Auxpow (zeroBlockHeader :: 'a BlockHeader) = None"
    by (simp add: zeroBlockHeader_def)
  have "readBlockHeader ext (writeBlockHeader ext pver h @ rest) pver zeroBlockHeader =
          Done (MkBlockHeader (Version h) (PrevBlock h) (MerkleRoot h) (Timestamp h)
                  (Bits h) (Nonce h) (Auxpow h)) rest"
    unfolding readBlockHeader_plain [OF plain(1)]
    using plain(2,3) z by (simp add: wireTime_roundtrip)
  then have h1: "readBlockHeader ext (writeBlockHeader ext pver h @ rest) pver zeroBlockHeader =
      Done h rest"
    by (simp add: header_eta)
  have h2: "length (writeBlockHeader ext pver h) = 80"
    using plain(1) by (simp add: writeBlockHeader_def)
  have h3: "SerializeSize ext h = 80"
    using plain(1) by (simp add: SerializeSize_def MaxBlockHeaderPayloadNoAuxpow_def)
  from h1 h2 h3 show ?thesis by simp
qed

lemma roundtrip_payload:
  assumes aux: "IsAuxpow g" "Auxpow g = Some a" "wireTime (Timestamp g)"
    and parent: "wireTime (Timestamp (ParentBlock a))" "Auxpow (ParentBlock a) = None"
    and codecs: "txCodecAt ext (CoinbaseTxn a)" "branchCodecAt ext pver (CoinbaseBranch a)"
      "branchCodecAt ext pver (BlockchainBranch a)"
  shows "readBlockHeader ext (writeBlockHeader ext pver g @ rest) pver zeroBlockHeader = Done g rest \<and>
         SerializeSize ext g = length (writeBlockHeader ext pver g)"
proof -
  have z: "Auxpow (zeroBlockHeader :: 'a BlockHeader) = None"
    by (simp add: zeroBlockHeader_def)
  let ?g' = "MkBlockHeader (Version g) (PrevBlock g) (MerkleRoot g) (Timestamp g)
               (Bits g) (Nonce g) (None :: 'a Auxpow option)"
  have f: "IsAuxpow ?g'"
    using aux(1) by (simp add: IsAuxpow_def)
  have pa: "MkBlockHeader (Version (ParentBlock a)) (PrevBlock (ParentBlock a))
              (MerkleRoot (ParentBlock a))
              (time_Unix (uint (word_of_int (Unix (Timestamp (ParentBlock a))) :: uint32)) 0)
              (Bits (ParentBlock a)) (Nonce (ParentBlock a)) None = ParentBlock a"
    using parent header_eta [of "ParentBlock a"] by (simp add: wireTime_roundtrip)
  have a: "MkAuxpow (CoinbaseTxn a) (ParentBlockHash a) (CoinbaseBranch a) (BlockchainBranch a)
             (ParentBlock a) = a"
    by (cases a) simp
  have "readBlockHeader ext (writeBlockHeaderNoAuxpow g @ writeAuxpow ext pver g @ rest) pver
          zeroBlockHeader =
        Done (MkBlockHeader (Version g) (PrevBlock g) (MerkleRoot g) (Timestamp g)
                (Bits g) (Nonce g) (Some a)) rest"
    unfolding readBlockHeader_def readHeaderFields_core
    using readAuxpow_payload [OF f codecs aux(2), of rest] aux(3) z
    by (simp add: wireTime_roundtrip pa a)
  then have g1: "readBlockHeader ext (writeBlockHeader ext pver g @ rest) pver zeroBlockHeader =
      Done g rest"
    using aux(1,2) header_eta [of g] by (simp add: writeBlockHeader_def)
  have g2: "SerializeSize ext g = length (writeBlockHeader ext pver g)"
    using aux(1,2) codecs
    by (simp add: SerializeSize_def Auxpow_SerializeSize_def writeBlockHeader_def writeAuxpow_def
          MaxBlockHeaderPayloadNoAuxpow_def txCodecAt_def branchCodecAt_def)
  from g1 g2 show ?thesis by simp
qed

lemma bareCollab_tx: "txCodecAt bareCollab tx"
  by (simp add: txCodecAt_def bareCollab_def bareDeserialize_def bareSerialize_def
        btcReadVarInt_def)

lemma bareCollab_branch_small:
  "length (Branch b) < 2 \<Longrightarrow> branchCodecAt bareCollab 0 b"
proof -
  assume "length (Branch b) < 2"
  then consider "length (Branch b) = 0" | "length (Branch b) = 1" by linarith
  then show ?thesis
    by cases
      (simp_all add: branchCodecAt_def bareCollab_def btcReadVarInt_def btcWriteVarInt_def
         btcVarIntSerializeSize_def)
qed

text \<open>
  C3, as stated: every header without AuxPoW decodes from its encoding to itself,
  field for field. This fails for a timestamp with a nanosecond part: the wire holds
  whole seconds, and the decoded header carries \<^verbatim>\<open>time.Unix(sec, 0)\<close>.
\<close>

theorem roundtrip_counterexample:
  "\<not> IsAuxpow sampleSubSecond \<and> Auxpow sampleSubSecond = None \<and>
   readBlockHeader bareCollab (writeBlockHeader bareCollab 0 sampleSubSecond) 0 zeroBlockHeader =
     Done (MkBlockHeader 1 zeroHash zeroHash (time_Unix 1231006505 0) 0x1d00ffff 0 None) [] \<and>
   MkBlockHeader 1 zeroHash zeroHash (time_Unix 1231006505 0) 0x1d00ffff 0 None \<noteq> sampleSubSecond"
proof -
  have f: "\<not> IsAuxpow sampleSubSecond"
    by (simp add: IsAuxpow_def BlockVersionAuxpow_def sampleSubSecond_def)
  have "readBlockHeader bareCollab (writeBlockHeader bareCollab 0 sampleSubSecond @ []) 0
          zeroBlockHeader =
        Done (MkBlockHeader 1 zeroHash zeroHash (time_Unix 1231006505 0) 0x1d00ffff 0 None) []"
    unfolding readBlockHeader_plain [OF f]
    by (simp add: sampleSubSecond_def zeroBlockHeader_def time_Unix_def)
  with f show ?thesis
    by (simp add: sampleSubSecond_def time_Unix_def)
qed

text \<open>
  C3, amended: timestamps are whole seconds that fit the unsigned 32-bit wire field.
  Then a header with the AuxPoW bit clear and no payload decodes from its encoding to
  itself, and its \<open>SerializeSize\<close> and the length of its encoding are both 80; and a
  header with the bit set and a payload, whose parent header has such a timestamp and
  no payload of its own, decodes from its encoding to itself, parent header included,
  with \<open>SerializeSize\<close> equal to the length of the encoding, for branches of any
  length. The transaction and variable-length integer codecs are assumed to read back
  and size what they write for this payload.
\<close>

theorem roundtrip_and_size:
  "(\<not> IsAuxpow h \<and> Auxpow h = None \<and> wireTime (Timestamp h) \<longrightarrow>
      readBlockHeader ext (writeBlockHeader ext pver h @ rest) pver zeroBlockHeader = Done h rest \<and>
      SerializeSize ext h = length (writeBlockHeader ext pver h) \<and>
      length (writeBlockHeader ext pver h) = 80) \<and>
   (IsAuxpow h \<and> Auxpow h = Some a \<and> wireTime (Timestamp h) \<and>
    wireTime (Timestamp (ParentBlock a)) \<and> Auxpow (ParentBlock a) = None \<and>
    txCodecAt ext (CoinbaseTxn a) \<and> branchCodecAt ext pver (CoinbaseBranch a) \<and>
    branchCodecAt ext pver (BlockchainBranch a) \<longrightarrow>
      readBlockHeader ext (writeBlockHeader ext pver h @ rest) pver zeroBlockHeader = Done h rest \<and>
      SerializeSize ext h = length (writeBlockHeader ext pver h))"
  using roundtrip_plain [of h ext pver rest] roundtrip_payload [of h a ext pver rest]
  by blast

theorem roundtrip_and_size_witness:
  "\<not> IsAuxpow samplePlainHeader \<and> IsAuxpow sampleAuxHeader \<and>
   Auxpow sampleAuxHeader = Some sampleAuxpow \<and>
   length (Branch (CoinbaseBranch sampleAuxpow)) = 1 \<and>
   length (Branch (BlockchainBranch sampleAuxpow)) = 0 \<and>
   readBlockHeader bareCollab (writeBlockHeader bareCollab 0 samplePlainHeader @ []) 0
     zeroBlockHeader = Done samplePlainHeader [] \<and>
   SerializeSize bareCollab samplePlainHeader = 80 \<and>
   readBlockHeader bareCollab (writeBlockHeader bareCollab 0 sampleAuxHeader @ []) 0
     zeroBlockHeader = Done sampleAuxHeader [] \<and>
   SerializeSize bareCollab sampleAuxHeader =
     length (writeBlockHeader bareCollab 0 sampleAuxHeader)"
proof -
  have p: "\<not> IsAuxpow samplePlainHeader \<and> Auxpow samplePlainHeader = None \<and>
      wireTime (Timestamp samplePlainHeader)"
    by (simp add: samplePlainHeader_def IsAuxpow_def BlockVersionAuxpow_def wireTime_def
          time_Unix_def)
  have a: "IsAuxpow sampleAuxHeader \<and> Auxpow sampleAuxHeader = Some sampleAuxpow \<and>
      wireTime (Timestamp sampleAuxHeader) \<and>
      wireTime (Timestamp (ParentBlock sampleAuxpow)) \<and>
      Auxpow (ParentBlock sampleAuxpow) = None \<and>
      txCodecAt bareCollab (CoinbaseTxn sampleAuxpow) \<and>
      branchCodecAt bareCollab 0 (CoinbaseBranch sampleAuxpow) \<and>
      branchCodecAt bareCollab 0 (BlockchainBranch sampleAuxpow)"
    by (simp add: sampleAuxHeader_def IsAuxpow_def BlockVersionAuxpow_def wireTime_def
          time_Unix_def sampleAuxpow_def sampleParent_def bareCollab_tx bareCollab_branch_small)
  have l: "length (Branch (CoinbaseBranch sampleAuxpow)) = 1"
      "length (Branch (BlockchainBranch sampleAuxpow)) = 0"
    by (simp_all add: sampleAuxpow_def)
  note t1 = roundtrip_and_size [of samplePlainHeader bareCollab 0 "[]" sampleAuxpow,
      THEN conjunct1, THEN mp, OF p]
  note t2 = roundtrip_and_size [of sampleAuxHeader bareCollab 0 "[]" sampleAuxpow,
      THEN conjunct2, THEN mp, OF a]
  from p a l t1 t2 show ?thesis by simp
qed

subsection \<open>Truncated and malformed streams\<close>

text \<open>
  A read that succeeds has consumed its bytes, so a stream shorter than the 80 bytes
  of the core fields, or shorter than the hashes a branch count announces, fails with
  the error of the read that ran out; every error of a collaborator is returned as it
  is. The header fields read before the failure stay, the \<open>Auxpow\<close> field is set
  only when the whole payload has been read.
\<close>

lemma readFull_Inr_length: "readFull n r = Inr (b, r') \<Longrightarrow> length r = n + length r'"
  by (auto simp: readFull_def split: if_splits)

lemma readUint32_Inr_length: "readUint32 r = Inr (v, r') \<Longrightarrow> length r = 4 + length r'"
  by (auto simp: readUint32_def split: sum.splits dest: readFull_Inr_length)

lemma readHash_Inr_length: "readHash r = Inr (h, r') \<Longrightarrow> length r = HashSize + length r'"
  by (auto simp: readHash_def split: sum.splits dest: readFull_Inr_length)

lemma readUint32Time_Inr_length: "readUint32Time r = Inr (t, r') \<Longrightarrow> length r = 4 + length r'"
  by (auto simp: readUint32Time_def split: sum.splits dest: readUint32_Inr_length)

lemma readHeaderFields_Done:
  "readHeaderFields r bh = Done h' r' \<Longrightarrow> length r = 80 + length r' \<and> Auxpow h' = Auxpow bh"
  by (cases bh)
    (auto simp: readHeaderFields_def split: sum.splits
       dest!: readUint32_Inr_length readHash_Inr_length readUint32Time_Inr_length)

lemma readHeaderFields_Failed:
  "readHeaderFields r bh = Failed e h' \<Longrightarrow> Auxpow h' = Auxpow bh"
  by (cases bh) (auto simp: readHeaderFields_def split: sum.splits)

lemma readHeaderFields_not_Panicked: "readHeaderFields r bh \<noteq> Panicked"
  by (cases bh) (auto simp: readHeaderFields_def split: sum.splits)

lemma readAuxpow_Failed: "readAuxpow ext r pver bh = Failed e h' \<Longrightarrow> h' = bh"
  by (auto simp: readAuxpow_def split: if_splits sum.splits option.splits outcome.splits
        BlockHeader.splits)

lemma readBlockHeader_Failed_Auxpow:
  "readBlockHeader ext r pver bh = Failed e h' \<Longrightarrow> Auxpow h' = Auxpow bh"
  by (auto simp: readBlockHeader_def split: outcome.splits
        dest: readHeaderFields_Done readHeaderFields_Failed readAuxpow_Failed)

lemma short_header_fails:
  assumes "length r < 80"
  shows "\<exists>e h'. readBlockHeader ext r pver bh = Failed e h' \<and> Auxpow h' = Auxpow bh"
proof (cases "readHeaderFields r bh")
  case (Done h' r')
  then show ?thesis using assms readHeaderFields_Done [OF Done] by simp
next
  case (Failed e h')
  then show ?thesis
    using readHeaderFields_Failed [OF Failed] by (simp add: readBlockHeader_def)
next
  case Panicked
  then show ?thesis using readHeaderFields_not_Panicked by blast
qed

lemma readBranchHashes_Inr_length:
  "readBranchHashes i count r br = Inr (br', r') \<Longrightarrow>
   length r = HashSize * (count - i) + length r'"
proof (induction i count r br rule: readBranchHashes.induct)
  case (1 i count r branch)
  show ?case
  proof (cases "i < count")
    case False
    with "1.prems" show ?thesis by (simp add: readBranchHashes.simps)
  next
    case True
    with "1.prems" obtain h r1 where
      h: "readHash r = Inr (h, r1)" and
      rec: "readBranchHashes (i + 1) count r1 (branch[i := h]) = Inr (br', r')"
      by (subst (asm) readBranchHashes.simps) (auto split: sum.splits)
    have "length r1 = HashSize * (count - (i + 1)) + length r'"
      using "1.IH" [OF True _ _ rec] h by simp
    moreover have "length r = HashSize + length r1"
      using readHash_Inr_length [OF h] .
    ultimately show ?thesis using True by (simp add: algebra_simps)
  qed
qed

lemma truncated_branch_fails:
  assumes "IsAuxpow bh"
    and "DeserializeNoWitness ext r = Inr (tx, r1)"
    and "readHash r1 = Inr (pbh, r2)"
    and "ReadVarInt ext r2 pver = Inr (count, r3)"
    and "makeHashes (maxAlloc ext) count = Some cb0"
    and "length r3 < HashSize * unat count"
  shows "\<exists>e. readAuxpow ext r pver bh = Failed e bh"
proof (cases "readBranchHashes 0 (unat count) r3 cb0")
  case (Inl e)
  with assms show ?thesis by (simp add: readAuxpow_def)
next
  case (Inr x)
  then obtain cb r4 where "readBranchHashes 0 (unat count) r3 cb0 = Inr (cb, r4)"
    by (cases x) simp
  from readBranchHashes_Inr_length [OF this] assms(6) show ?thesis by simp
qed

lemma unchecked_count_panics:
  assumes "IsAuxpow bh"
    and "DeserializeNoWitness ext r = Inr (tx, r1)"
    and "readHash r1 = Inr (pbh, r2)"
    and "ReadVarInt ext r2 pver = Inr (count, r3)"
    and "2 ^ 63 \<le> unat count \<or> maxAlloc ext < HashSize * unat count"
  shows "readAuxpow ext r pver bh = Panicked"
proof -
  have "makeHashes (maxAlloc ext) count = None"
    using assms(5) by (auto simp: makeHashes_def)
  with assms(1-4) show ?thesis by (simp add: readAuxpow_def)
qed

lemma hugeCountInput_eq:
  "hugeCountInput =
     writeBlockHeaderNoAuxpow (MkBlockHeader 0x100 zeroHash zeroHash (time_Unix 0 0) 0 0
        (None :: bareTx Auxpow option)) @
     SerializeNoWitness bareCollab \<lparr>TxVersion = 1, LockTime = 0\<rparr> @
     hashBytes zeroHash @
     [0xff, 0xff, 0xff, 0xff, 0xff, 0xff, 0xff, 0xff, 0xff]"
proof -
  have "replicate 76 (0 :: byte) = replicate 32 0 @ replicate 32 0 @ replicate 12 0"
    by (simp flip: replicate_add)
  moreover have "replicate 12 (0 :: byte) = [0, 0, 0, 0, 0, 0, 0, 0, 0, 0, 0, 0]"
    by (simp add: numeral_eq_Suc)
  ultimately show ?thesis
    by (simp add: hugeCountInput_def writeBlockHeaderNoAuxpow_def putUint32_def hashBytes_zeroHash
        time_Unix_def bareCollab_def bareSerialize_def)
qed

lemma readBlockHeader_hugeCount:
  "readBlockHeader bareCollab hugeCountInput pver (zeroBlockHeader :: bareTx BlockHeader) = Panicked"
proof -
  have f: "IsAuxpow (MkBlockHeader 0x100 p m t b n a)" for p m t b n and a :: "bareTx Auxpow option"
    by (simp add: IsAuxpow_def BlockVersionAuxpow_def)
  have t: "DeserializeNoWitness bareCollab (SerializeNoWitness bareCollab tx @ r) = Inr (tx, r)"
    for tx r
    using bareCollab_tx [of tx] by (simp add: txCodecAt_def)
  have v: "ReadVarInt bareCollab ([0xff, 0xff, 0xff, 0xff, 0xff, 0xff, 0xff, 0xff, 0xff] @ r) pver =
             Inr (0xffffffffffffffff, r)" for r
    by (simp add: bareCollab_def btcReadVarInt_def readFull_def leUint_def)
  have m: "makeHashes (maxAlloc bareCollab) 0xffffffffffffffff = None"
    by (simp add: makeHashes_def bareCollab_def)
  have "readBlockHeader bareCollab (hugeCountInput @ []) pver (zeroBlockHeader :: bareTx BlockHeader) = Panicked"
    unfolding hugeCountInput_eq readBlockHeader_def append_assoc readHeaderFields_core
    using v [of "[]"] by (simp add: readAuxpow_def f t m)
  then show ?thesis by simp
qed

lemma GetBlockHeaderSize_Failed:
  "readBlockHeader ext raw 60002 zeroBlockHeader = Failed e h' \<Longrightarrow>
   GetBlockHeaderSize ext raw = Some 80"
  using readBlockHeader_Failed_Auxpow [of ext raw 60002 zeroBlockHeader e h']
  by (simp add: GetBlockHeaderSize_def SerializeSize_def zeroBlockHeader_def
        MaxBlockHeaderPayloadNoAuxpow_def)

lemma GetBlockHeaderSize_short: "length raw < 80 \<Longrightarrow> GetBlockHeaderSize ext raw = Some 80"
  using short_header_fails [of raw ext 60002 zeroBlockHeader] GetBlockHeaderSize_Failed
  by blast

lemma GetBlockHeaderSize_encoded:
  assumes "wireTime (Timestamp h)"
    and "\<not> IsAuxpow h \<and> Auxpow h = None \<or>
         IsAuxpow h \<and> Auxpow h = Some a \<and>
         wireTime (Timestamp (ParentBlock a)) \<and> Auxpow (ParentBlock a) = None \<and>
         txCodecAt ext (CoinbaseTxn a) \<and> branchCodecAt ext 60002 (CoinbaseBranch a) \<and>
         branchCodecAt ext 60002 (BlockchainBranch a)"
  shows "GetBlockHeaderSize ext (writeBlockHeader ext 60002 h @ rest) =
           Some (length (writeBlockHeader ext 60002 h))"
  using assms roundtrip_plain [of h ext 60002 rest] roundtrip_payload [of h a ext 60002 rest]
  by (auto simp: GetBlockHeaderSize_def)

text \<open>
  C4: decoding fails with a decode error whenever the stream is shorter than the
  structure being read needs, a variable-length count's worth of branch hashes
  included. At \<open>hugeCountInput\<close> the stream ends right after a branch count of
  \<open>2 ^ 64 - 1\<close>: \<open>readAuxpow\<close> passes the count unchecked to \<^verbatim>\<open>make\<close>, which panics
  before any hash is read, so the caller gets no decode error.
\<close>

theorem huge_count_panics:
  "length hugeCountInput = 131 \<and>
   readBlockHeader bareCollab hugeCountInput 0 (zeroBlockHeader :: bareTx BlockHeader) = Panicked"
  using readBlockHeader_hugeCount [of 0] by (simp add: hugeCountInput_def)

text \<open>
  C10: \<open>GetBlockHeaderSize\<close> is total, drops the decode error and returns the size of
  what was decoded, for every input. It does so whenever the decoder returns (80 for
  every failed decode, see \<open>GetBlockHeaderSize_Failed\<close>); at \<open>hugeCountInput\<close> the
  decoder panics, and \<open>GetBlockHeaderSize\<close> with it.
\<close>

theorem GetBlockHeaderSize_panics:
  "GetBlockHeaderSize bareCollab hugeCountInput = None"
  using readBlockHeader_hugeCount [of 60002] by (simp add: GetBlockHeaderSize_def)

end
